theory Spec2Isabelle
  imports Main "HOL-Library.Word" "HOL-Library.AList"
begin

section \<open>Python values, exceptions and the transport\<close>

text \<open>
  The client of \<^verbatim>\<open>redisai/client.py\<close> is a thin layer over redis-py: every
  method builds a positional argument list, hands it to \<^verbatim>\<open>execute_command\<close> and
  decodes the reply. The values that travel through it are modelled by one datatype.
  A byte string is a list of 8-bit characters; a text string is held as its UTF-8
  encoding, so that \<^verbatim>\<open>bytes.decode()\<close> is a validity check that keeps the
  characters. A Python float is an opaque 64-bit pattern: the client never computes
  with one.
\<close>

datatype pyval =
    PNone
  | PBool bool
  | PInt int
  | PFloat "64 word"
  | PStr string
  | PBytes string
  | PList "pyval list"
  | PTuple "pyval list"

datatype exn =
    ValueError
  | TypeError
  | AttributeError
  | KeyError string
  | UnicodeDecodeError
  | TransportError string

text \<open>Python's truth value of an object, as \<^verbatim>\<open>all((inputs, outputs))\<close> tests it.\<close>

fun truthy :: "pyval \<Rightarrow> bool" where
  "truthy PNone = False"
| "truthy (PBool b) = b"
| "truthy (PInt i) = (i \<noteq> 0)"
| "truthy (PFloat w) = (w \<noteq> 0 \<and> w \<noteq> 2 ^ 63)"
| "truthy (PStr s) = (s \<noteq> [])"
| "truthy (PBytes s) = (s \<noteq> [])"
| "truthy (PList xs) = (xs \<noteq> [])"
| "truthy (PTuple xs) = (xs \<noteq> [])"

subsection \<open>Text: upper, lower, decode\<close>

text \<open>
  \<^verbatim>\<open>str.upper\<close> and \<^verbatim>\<open>str.lower\<close> on the ASCII letters; every other byte of
  the UTF-8 encoding is left as it is (the case mappings of Unicode beyond ASCII are
  outside the model).
\<close>

definition upper_char :: "char \<Rightarrow> char" where
  "upper_char c =
     (let n = (of_char c :: nat) in if 97 \<le> n \<and> n \<le> 122 then char_of (n - 32) else c)"

definition lower_char :: "char \<Rightarrow> char" where
  "lower_char c =
     (let n = (of_char c :: nat) in if 65 \<le> n \<and> n \<le> 90 then char_of (n + 32) else c)"

definition upper :: "string \<Rightarrow> string" where
  "upper s = map upper_char s"

definition lower :: "string \<Rightarrow> string" where
  "lower s = map lower_char s"

text \<open>
  Strict UTF-8, as \<^verbatim>\<open>bytes.decode()\<close> checks it: no overlong form, no surrogate,
  nothing above U+10FFFF.
\<close>

definition cont :: "nat \<Rightarrow> bool" where
  "cont b = (128 \<le> b \<and> b \<le> 191)"

fun utf8_ok :: "nat list \<Rightarrow> bool" where
  "utf8_ok [] = True"
| "utf8_ok [b0] = (b0 < 128)"
| "utf8_ok [b0, b1] =
     (if b0 < 128 then utf8_ok [b1] else 194 \<le> b0 \<and> b0 \<le> 223 \<and> cont b1)"
| "utf8_ok [b0, b1, b2] =
     (if b0 < 128 then utf8_ok [b1, b2]
      else if 194 \<le> b0 \<and> b0 \<le> 223 then cont b1 \<and> utf8_ok [b2]
      else if b0 = 224 then 160 \<le> b1 \<and> b1 \<le> 191 \<and> cont b2
      else if b0 = 237 then 128 \<le> b1 \<and> b1 \<le> 159 \<and> cont b2
      else 225 \<le> b0 \<and> b0 \<le> 239 \<and> cont b1 \<and> cont b2)"
| "utf8_ok (b0 # b1 # b2 # b3 # bs) =
     (if b0 < 128 then utf8_ok (b1 # b2 # b3 # bs)
      else if 194 \<le> b0 \<and> b0 \<le> 223 then cont b1 \<and> utf8_ok (b2 # b3 # bs)
      else if b0 = 224 then 160 \<le> b1 \<and> b1 \<le> 191 \<and> cont b2 \<and> utf8_ok (b3 # bs)
      else if b0 = 237 then 128 \<le> b1 \<and> b1 \<le> 159 \<and> cont b2 \<and> utf8_ok (b3 # bs)
      else if 225 \<le> b0 \<and> b0 \<le> 239 then cont b1 \<and> cont b2 \<and> utf8_ok (b3 # bs)
      else if b0 = 240 then 144 \<le> b1 \<and> b1 \<le> 191 \<and> cont b2 \<and> cont b3 \<and> utf8_ok bs
      else if b0 = 244 then 128 \<le> b1 \<and> b1 \<le> 143 \<and> cont b2 \<and> cont b3 \<and> utf8_ok bs
      else 241 \<le> b0 \<and> b0 \<le> 243 \<and> cont b1 \<and> cont b2 \<and> cont b3 \<and> utf8_ok bs)"

text \<open>\<^verbatim>\<open>x.decode()\<close>: only a byte string has the method.\<close>

definition decode_text :: "pyval \<Rightarrow> exn + string" where
  "decode_text v =
     (case v of
        PBytes b \<Rightarrow> if utf8_ok (map of_char b) then Inr b else Inl UnicodeDecodeError
      | _ \<Rightarrow> Inl AttributeError)"

definition decode :: "pyval \<Rightarrow> exn + pyval" where
  "decode v = (case decode_text v of Inl e \<Rightarrow> Inl e | Inr s \<Rightarrow> Inr (PStr s))"

subsection \<open>The transport\<close>

text \<open>
  \<^verbatim>\<open>execute_command\<close> belongs to redis-py. It is a parameter of the model: a
  function from the argument list to the reply, or to the exception the transport
  raises. The requests issued so far are kept in a log, so that "no request was issued"
  is a statement about the log.
\<close>

type_synonym transport = "pyval list \<Rightarrow> exn + pyval"

type_synonym log = "pyval list list"

definition execute_command :: "transport \<Rightarrow> pyval list \<Rightarrow> log \<Rightarrow> (exn + pyval) \<times> log" where
  "execute_command srv args lg = (srv args, lg @ [args])"

text \<open>The tail of most methods: \<^verbatim>\<open>return self.execute_command(*args).decode()\<close>.\<close>

definition call_decode :: "transport \<Rightarrow> pyval list \<Rightarrow> log \<Rightarrow> (exn + pyval) \<times> log" where
  "call_decode srv args lg =
     (case execute_command srv args lg of
        (Inl e, lg') \<Rightarrow> (Inl e, lg')
      | (Inr r, lg') \<Rightarrow> (decode r, lg'))"

section \<open>utils: the helpers of the client\<close>

text \<open>
  Modelled from the spec: \<^verbatim>\<open>utils.listify\<close> (the module \<^verbatim>\<open>utils.py\<close> is not
  among the sources). The spec lists it as a value coercion; the client applies it to
  an argument typed "a string or a sequence of strings" and unpacks the result, so a
  list or a tuple stands for its elements and any other value for itself alone.
\<close>

fun listify :: "pyval \<Rightarrow> pyval list" where
  "listify (PList xs) = xs"
| "listify (PTuple xs) = xs"
| "listify v = [v]"

section \<open>modelset\<close>

text \<open>
  Lines 69 to 84 build the argument list, or raise; line 85 issues the request. The
  optional arguments default to \<^verbatim>\<open>None\<close>: \<open>batch\<close>, \<open>minbatch\<close> and \<open>tag\<close> are
  tested with \<^verbatim>\<open>is not None\<close>, \<open>inputs\<close> and \<open>outputs\<close> by their truth value.
\<close>

definition modelset_args ::
  "pyval \<Rightarrow> string \<Rightarrow> pyval \<Rightarrow> pyval \<Rightarrow> int option \<Rightarrow> int option \<Rightarrow> string option
     \<Rightarrow> pyval \<Rightarrow> pyval \<Rightarrow> exn + pyval list" where
  "modelset_args name backend device data batch minbatch tag inputs outputs =
     (let args = [PStr ''AI.MODELSET'', name, PStr backend, device];
          args = (case batch of None \<Rightarrow> args | Some b \<Rightarrow> args @ [PStr ''BATCHSIZE'', PInt b]);
          args = (case minbatch of None \<Rightarrow> args
                  | Some m \<Rightarrow> args @ [PStr ''MINBATCHSIZE'', PInt m]);
          args = (case tag of None \<Rightarrow> args | Some t \<Rightarrow> args @ [PStr ''TAG'', PStr t])
      in if upper backend = ''TF'' then
           if \<not> (truthy inputs \<and> truthy outputs) then Inl ValueError
           else Inr (args @ [PStr ''INPUTS''] @ listify inputs
                       @ [PStr ''OUTPUTS''] @ listify outputs @ [data])
         else Inr (args @ [data]))"

definition modelset ::
  "transport \<Rightarrow> pyval \<Rightarrow> string \<Rightarrow> pyval \<Rightarrow> pyval \<Rightarrow> int option \<Rightarrow> int option
     \<Rightarrow> string option \<Rightarrow> pyval \<Rightarrow> pyval \<Rightarrow> log \<Rightarrow> (exn + pyval) \<times> log" where
  "modelset srv name backend device data batch minbatch tag inputs outputs lg =
     (case modelset_args name backend device data batch minbatch tag inputs outputs of
        Inl e \<Rightarrow> (Inl e, lg)
      | Inr args \<Rightarrow> call_decode srv args lg)"

section \<open>Native arrays and the tensor codec\<close>

text \<open>
  A native array is its element type, its shape and its elements in row-major order.
  An element is the bit pattern it has in memory, a number below \<open>256 ^ itemsize\<close>
  (for a float, its IEEE pattern), so that equal arrays have equal values bit for bit.
  The spec names the element types float32, float64, int32 and int64.
\<close>

datatype np_dtype = Float32 | Float64 | Int32 | Int64

fun itemsize :: "np_dtype \<Rightarrow> nat" where
  "itemsize Float32 = 4"
| "itemsize Float64 = 8"
| "itemsize Int32 = 4"
| "itemsize Int64 = 8"

record ndarray =
  arr_dtype :: np_dtype
  arr_shape :: "nat list"
  arr_data :: "nat list"

definition wf_ndarray :: "ndarray \<Rightarrow> bool" where
  "wf_ndarray a =
     (length (arr_data a) = prod_list (arr_shape a)
      \<and> list_all (\<lambda>x. x < 256 ^ itemsize (arr_dtype a)) (arr_data a))"

text \<open>The bytes of one element, least significant first, and back.\<close>

fun le_bytes :: "nat \<Rightarrow> nat \<Rightarrow> string" where
  "le_bytes 0 x = []"
| "le_bytes (Suc n) x = char_of (x mod 256) # le_bytes n (x div 256)"

fun from_le :: "string \<Rightarrow> nat" where
  "from_le [] = 0"
| "from_le (c # cs) = of_char c + 256 * from_le cs"

fun chunks :: "nat \<Rightarrow> 'a list \<Rightarrow> 'a list list" where
  "chunks n [] = []"
| "chunks n (x # xs) =
     (if n = 0 then [] else take n (x # xs) # chunks n (drop n (x # xs)))"

text \<open>
  Modelled from the spec: the dtype tags of \<^verbatim>\<open>utils.py\<close>, which is not among the
  sources. The client and the spec give \<^verbatim>\<open>FLOAT\<close> and \<^verbatim>\<open>DOUBLE\<close> for the two
  floating-point kinds; an integer kind is tagged by its name in upper case.
\<close>

fun dtype_tag :: "np_dtype \<Rightarrow> string" where
  "dtype_tag Float32 = ''FLOAT''"
| "dtype_tag Float64 = ''DOUBLE''"
| "dtype_tag Int32 = ''INT32''"
| "dtype_tag Int64 = ''INT64''"

definition tag_dtype :: "string \<Rightarrow> np_dtype option" where
  "tag_dtype t =
     (if t = ''FLOAT'' then Some Float32
      else if t = ''DOUBLE'' then Some Float64
      else if t = ''INT32'' then Some Int32
      else if t = ''INT64'' then Some Int64
      else None)"

text \<open>
  Modelled from the spec: \<^verbatim>\<open>utils.numpy2blob\<close>, which is not among the sources.
  "Derive dtype tag from the array's element type, derive shape from the array's
  dimensions, and serialize the raw memory contents to a binary blob using the
  platform's native byte layout" (little-endian here).
\<close>

definition numpy2blob :: "ndarray \<Rightarrow> string \<times> nat list \<times> string" where
  "numpy2blob a =
     (dtype_tag (arr_dtype a), arr_shape a,
      concat (map (le_bytes (itemsize (arr_dtype a))) (arr_data a)))"

text \<open>The shape as the reply or the caller gives it: a sequence of non-negative integers.\<close>

fun dim_of :: "pyval \<Rightarrow> nat option" where
  "dim_of (PInt i) = (if 0 \<le> i then Some (nat i) else None)"
| "dim_of v = None"

fun those_dims :: "pyval list \<Rightarrow> nat list option" where
  "those_dims [] = Some []"
| "those_dims (v # vs) =
     (case dim_of v of
        None \<Rightarrow> None
      | Some d \<Rightarrow> (case those_dims vs of None \<Rightarrow> None | Some ds \<Rightarrow> Some (d # ds)))"

fun dims_of :: "pyval \<Rightarrow> nat list option" where
  "dims_of (PList vs) = those_dims vs"
| "dims_of (PTuple vs) = those_dims vs"
| "dims_of v = None"

text \<open>
  Modelled from the spec: \<^verbatim>\<open>utils.blob2numpy\<close>, which is not among the sources.
  "Given dtype tag, shape, and a binary blob, reinterpret the blob's bytes as a
  contiguous array of the given element type and reshape to the given shape. Fails if
  the blob's byte length does not correspond to shape's implied element count times the
  dtype's byte width."
\<close>

definition blob2numpy :: "pyval \<Rightarrow> pyval \<Rightarrow> pyval \<Rightarrow> exn + ndarray" where
  "blob2numpy value shape dtype =
     (case (value, dims_of shape, dtype) of
        (PBytes blob, Some dims, PStr t) \<Rightarrow>
          (case tag_dtype t of
             None \<Rightarrow> Inl TypeError
           | Some d \<Rightarrow>
               if length blob = prod_list dims * itemsize d
               then Inr \<lparr>arr_dtype = d, arr_shape = dims,
                         arr_data = map from_le (chunks (itemsize d) blob)\<rparr>
               else Inl ValueError)
      | _ \<Rightarrow> Inl TypeError)"

section \<open>Reply decoding\<close>

text \<open>The first exception of a list of results, or all the values.\<close>

fun collect :: "(exn + 'a) list \<Rightarrow> exn + 'a list" where
  "collect [] = Inr []"
| "collect (Inl e # rs) = Inl e"
| "collect (Inr x # rs) = (case collect rs of Inl e \<Rightarrow> Inl e | Inr xs \<Rightarrow> Inr (x # xs))"

text \<open>
  Modelled from the spec: the value side of \<^verbatim>\<open>utils.list2dict\<close>. "Every odd-indexed
  element as its value; nested list values are recursively decoded element-wise when
  they contain binary text": a value that is not a list is kept as it is (a blob stays
  a byte string), the byte strings inside a list value are decoded to text.
\<close>

fun decode_elems :: "pyval \<Rightarrow> exn + pyval" where
  "decode_elems (PBytes b) = decode (PBytes b)"
| "decode_elems (PList vs) =
     (case collect (map decode_elems vs) of Inl e \<Rightarrow> Inl e | Inr ws \<Rightarrow> Inr (PList ws))"
| "decode_elems v = Inr v"

fun decode_value :: "pyval \<Rightarrow> exn + pyval" where
  "decode_value (PList vs) = decode_elems (PList vs)"
| "decode_value v = Inr v"

text \<open>
  Modelled from the spec: \<^verbatim>\<open>utils.list2dict\<close>, which is not among the sources. "A
  flat alternating key/value reply is folded into a mapping by treating every
  even-indexed element as a key (decoded to text, case-normalized) and every
  odd-indexed element as its value." The mapping is a Python \<^verbatim>\<open>dict\<close>: an
  association list in insertion order, where storing under a key that is present
  replaces the value and keeps the place. The client reads the keys \<^verbatim>\<open>'blob'\<close>,
  \<^verbatim>\<open>'shape'\<close>, \<^verbatim>\<open>'dtype'\<close> and \<^verbatim>\<open>'values'\<close>, so the normal form is lower case.
  A reply of odd length breaks the invariant of the reply record; the model raises.
\<close>

type_synonym pydict = "(string \<times> pyval) list"

fun fold_pairs :: "pyval list \<Rightarrow> pydict \<Rightarrow> exn + pydict" where
  "fold_pairs [] out = Inr out"
| "fold_pairs [k] out = Inl ValueError"
| "fold_pairs (k # v # rest) out =
     (case decode_text k of
        Inl e \<Rightarrow> Inl e
      | Inr s \<Rightarrow>
          (case decode_value v of
             Inl e \<Rightarrow> Inl e
           | Inr w \<Rightarrow> fold_pairs rest (AList.update (lower s) w out)))"

definition list2dict :: "pyval \<Rightarrow> exn + pydict" where
  "list2dict lst = (case lst of PList xs \<Rightarrow> fold_pairs xs [] | _ \<Rightarrow> Inl TypeError)"

text \<open>
  The flat reply that carries the pairs \<open>kvs\<close>, each key a byte string, and the
  keys of a dict in order of first insertion.
\<close>

definition flat_reply :: "(string \<times> pyval) list \<Rightarrow> pyval list" where
  "flat_reply kvs = concat (map (\<lambda>(k, v). [PBytes k, v]) kvs)"

function first_occurrences :: "'a list \<Rightarrow> 'a list" where
  "first_occurrences [] = []"
| "first_occurrences (x # xs) = x # first_occurrences (removeAll x xs)"
  by pat_completeness auto
termination
  by (relation "measure length") (auto simp: less_Suc_eq_le)

text \<open>\<^verbatim>\<open>res[k]\<close> on a dict.\<close>

definition getitem :: "pydict \<Rightarrow> string \<Rightarrow> exn + pyval" where
  "getitem d k = (case map_of d k of None \<Rightarrow> Inl (KeyError k) | Some v \<Rightarrow> Inr v)"

text \<open>
  Modelled from the spec: \<^verbatim>\<open>utils.un_bytize\<close>, which is not among the sources.
  "Given a flat list of textual/numeric tokens and a target scalar kind, converts every
  element in place." The target is the callable the client passes (\<^verbatim>\<open>float\<close> or
  \<^verbatim>\<open>int\<close>); the first conversion that raises ends the call.
\<close>

definition un_bytize :: "pyval \<Rightarrow> (pyval \<Rightarrow> exn + pyval) \<Rightarrow> exn + pyval" where
  "un_bytize arr target =
     (case arr of
        PList xs \<Rightarrow> (case collect (map target xs) of Inl e \<Rightarrow> Inl e | Inr ys \<Rightarrow> Inr (PList ys))
      | _ \<Rightarrow> Inl TypeError)"

section \<open>modelget, tensorset, tensorget\<close>

definition modelget :: "transport \<Rightarrow> pyval \<Rightarrow> bool \<Rightarrow> log \<Rightarrow> (exn + pydict) \<times> log" where
  "modelget srv name meta_only lg =
     (let args = [PStr ''AI.MODELGET'', name, PStr ''META''];
          args = (if \<not> meta_only then args @ [PStr ''BLOB''] else args)
      in case execute_command srv args lg of
           (Inl e, lg') \<Rightarrow> (Inl e, lg')
         | (Inr rv, lg') \<Rightarrow> (list2dict rv, lg'))"

text \<open>
  The \<open>tensor\<close> argument of \<^verbatim>\<open>tensorset\<close> is a numpy array or any other Python
  object; \<open>shape\<close> and \<open>dtype\<close> default to \<^verbatim>\<open>None\<close>.
\<close>

datatype tensor_arg = NdArray ndarray | Obj pyval

text \<open>\<^verbatim>\<open>isinstance(tensor, (list, tuple))\<close>\<close>

fun is_sequence :: "pyval \<Rightarrow> bool" where
  "is_sequence (PList xs) = True"
| "is_sequence (PTuple xs) = True"
| "is_sequence v = False"

definition tensorset_args ::
  "pyval \<Rightarrow> tensor_arg \<Rightarrow> int list option \<Rightarrow> string option \<Rightarrow> exn + pyval list" where
  "tensorset_args key tensor shape dtype =
     (case tensor of
        NdArray a \<Rightarrow>
          (case numpy2blob a of
             (dtype', shape', blob) \<Rightarrow>
               Inr ([PStr ''AI.TENSORSET'', key, PStr dtype'] @ map (\<lambda>n. PInt (int n)) shape'
                      @ [PStr ''BLOB'', PBytes blob]))
      | Obj v \<Rightarrow>
          (let build = (\<lambda>xs.
                 let shape = (case shape of None \<Rightarrow> [int (length xs)] | Some s \<Rightarrow> s)
                 in Inr ([PStr ''AI.TENSORSET'', key,
                          (case dtype of None \<Rightarrow> PNone | Some d \<Rightarrow> PStr d)]
                         @ map PInt shape @ [PStr ''VALUES''] @ xs))
           in case v of
                PList xs \<Rightarrow> build xs
              | PTuple xs \<Rightarrow> build xs
              | _ \<Rightarrow> Inl TypeError))"

definition tensorset ::
  "transport \<Rightarrow> pyval \<Rightarrow> tensor_arg \<Rightarrow> int list option \<Rightarrow> string option \<Rightarrow> log
     \<Rightarrow> (exn + pyval) \<times> log" where
  "tensorset srv key tensor shape dtype lg =
     (case tensorset_args key tensor shape dtype of
        Inl e \<Rightarrow> (Inl e, lg)
      | Inr args \<Rightarrow> call_decode srv args lg)"

text \<open>
  \<^verbatim>\<open>tensorget\<close> returns a dict or a numpy array. The builtins \<^verbatim>\<open>float\<close> and
  \<^verbatim>\<open>int\<close> that line 166 chooses between are parameters of the model.
\<close>

datatype tensor_result = Mapping pydict | Array ndarray

definition tensorget_args :: "pyval \<Rightarrow> bool \<Rightarrow> bool \<Rightarrow> pyval list" where
  "tensorget_args key as_numpy meta_only =
     (let args = [PStr ''AI.TENSORGET'', key, PStr ''META'']
      in if \<not> meta_only then
           if as_numpy then args @ [PStr ''BLOB''] else args @ [PStr ''VALUES'']
         else args)"

definition tensorget_decode ::
  "(pyval \<Rightarrow> exn + pyval) \<Rightarrow> (pyval \<Rightarrow> exn + pyval) \<Rightarrow> bool \<Rightarrow> bool \<Rightarrow> pyval
     \<Rightarrow> exn + tensor_result" where
  "tensorget_decode py_float py_int as_numpy meta_only reply =
     (case list2dict reply of
        Inl e \<Rightarrow> Inl e
      | Inr res \<Rightarrow>
          if meta_only then Inr (Mapping res)
          else if as_numpy then
            (case getitem res ''blob'' of
               Inl e \<Rightarrow> Inl e
             | Inr blob \<Rightarrow>
                 (case getitem res ''shape'' of
                    Inl e \<Rightarrow> Inl e
                  | Inr shape \<Rightarrow>
                      (case getitem res ''dtype'' of
                         Inl e \<Rightarrow> Inl e
                       | Inr dtype \<Rightarrow>
                           (case blob2numpy blob shape dtype of
                              Inl e \<Rightarrow> Inl e
                            | Inr a \<Rightarrow> Inr (Array a)))))
          else
            (case getitem res ''dtype'' of
               Inl e \<Rightarrow> Inl e
             | Inr dtype \<Rightarrow>
                 (let target = (if dtype = PStr ''FLOAT'' \<or> dtype = PStr ''DOUBLE''
                                then py_float else py_int)
                  in case getitem res ''values'' of
                       Inl e \<Rightarrow> Inl e
                     | Inr vals \<Rightarrow>
                         (case un_bytize vals target of
                            Inl e \<Rightarrow> Inl e
                          | Inr vals' \<Rightarrow> Inr (Mapping (AList.update ''values'' vals' res))))))"

definition tensorget ::
  "transport \<Rightarrow> (pyval \<Rightarrow> exn + pyval) \<Rightarrow> (pyval \<Rightarrow> exn + pyval) \<Rightarrow> pyval \<Rightarrow> bool \<Rightarrow> bool
     \<Rightarrow> log \<Rightarrow> (exn + tensor_result) \<times> log" where
  "tensorget srv py_float py_int key as_numpy meta_only lg =
     (case execute_command srv (tensorget_args key as_numpy meta_only) lg of
        (Inl e, lg') \<Rightarrow> (Inl e, lg')
      | (Inr res, lg') \<Rightarrow> (tensorget_decode py_float py_int as_numpy meta_only res, lg'))"

section \<open>Facts about the transport and the text helpers\<close>

lemma snd_call_decode: "snd (call_decode srv args lg) = lg @ [args]"
  by (simp add: call_decode_def execute_command_def split: sum.splits)

lemma call_decode_ok:
  "call_decode (\<lambda>_. Inr (PBytes ''OK'')) args lg = (Inr (PStr ''OK''), lg @ [args])"
  by (simp add: call_decode_def execute_command_def decode_def decode_text_def)

lemma of_char_upper_char:
  "(of_char (upper_char c) :: nat) =
     (if 97 \<le> (of_char c :: nat) \<and> (of_char c :: nat) \<le> 122
      then of_char c - 32 else of_char c)"
  by (auto simp: upper_char_def Let_def)

lemma char_eq_code: "c = d \<longleftrightarrow> (of_char c :: nat) = of_char d"
  by simp

lemma upper_char_T: "upper_char c = CHR ''T'' \<longleftrightarrow> c = CHR ''T'' \<or> c = CHR ''t''"
  unfolding char_eq_code [of _ "CHR ''T''"] char_eq_code [of _ "CHR ''t''"] of_char_upper_char
  by auto

lemma upper_char_F: "upper_char c = CHR ''F'' \<longleftrightarrow> c = CHR ''F'' \<or> c = CHR ''f''"
  unfolding char_eq_code [of _ "CHR ''F''"] char_eq_code [of _ "CHR ''f''"] of_char_upper_char
  by auto

text \<open>The backends that line 78 takes for TensorFlow: the four spellings of "tf".\<close>

lemma upper_TF_iff: "upper b = ''TF'' \<longleftrightarrow> b \<in> {''TF'', ''tf'', ''Tf'', ''tF''}"
proof (cases b)
  case Nil
  then show ?thesis by (simp add: upper_def)
next
  case (Cons c cs)
  note outer = Cons
  show ?thesis
  proof (cases cs)
    case Nil
    with outer show ?thesis by (simp add: upper_def)
  next
    case (Cons d ds)
    with outer show ?thesis
      by (auto simp: upper_def upper_char_T upper_char_F)
  qed
qed

section \<open>modelset: the node names of a TensorFlow graph\<close>

lemma modelset_args_tf:
  assumes "upper backend = ''TF''"
  shows "modelset_args name backend device data batch minbatch tag inputs outputs =
     (if truthy inputs \<and> truthy outputs
      then Inr ([PStr ''AI.MODELSET'', name, PStr backend, device]
             @ (case batch of None \<Rightarrow> [] | Some b \<Rightarrow> [PStr ''BATCHSIZE'', PInt b])
             @ (case minbatch of None \<Rightarrow> [] | Some m \<Rightarrow> [PStr ''MINBATCHSIZE'', PInt m])
             @ (case tag of None \<Rightarrow> [] | Some t \<Rightarrow> [PStr ''TAG'', PStr t])
             @ [PStr ''INPUTS''] @ listify inputs @ [PStr ''OUTPUTS''] @ listify outputs
             @ [data])
      else Inl ValueError)"
  using assms by (simp add: modelset_args_def Let_def split: option.splits)

text \<open>
  C2, as the claim states it, fails: both node-name lists are supplied, the input list
  is empty, and \<^verbatim>\<open>modelset\<close> raises \<^verbatim>\<open>ValueError\<close> without building an argument
  list or issuing a request.
\<close>

theorem modelset_supplied_empty_counterexample:
  "modelset (\<lambda>_. Inr (PBytes ''OK'')) (PStr ''m'') ''TF'' (PStr ''CPU'') (PBytes ''graph'')
     None None None (PList []) (PList [PStr ''out'']) [] = (Inl ValueError, [])"
  by (simp add: modelset_def modelset_args_tf upper_TF_iff)

text \<open>
  C2, amended: for a backend that is "TF" in any letter case, \<^verbatim>\<open>modelset\<close> with
  \<open>inputs\<close> or \<open>outputs\<close> absent (\<^verbatim>\<open>None\<close>) raises \<^verbatim>\<open>ValueError\<close> and leaves the
  log of requests as it was; with both given as non-empty lists, the argument list is
  \<^verbatim>\<open>AI.MODELSET\<close>, name, backend, device, the optional \<^verbatim>\<open>BATCHSIZE\<close>,
  \<^verbatim>\<open>MINBATCHSIZE\<close> and \<^verbatim>\<open>TAG\<close> groups, \<^verbatim>\<open>INPUTS\<close> and the input names,
  \<^verbatim>\<open>OUTPUTS\<close> and the output names, and the model data last, and that list is the one
  request issued.
\<close>

theorem modelset_tf_node_names:
  assumes "upper backend = ''TF''"
  shows "(inputs = PNone \<or> outputs = PNone \<longrightarrow>
            modelset srv name backend device data batch minbatch tag inputs outputs lg
              = (Inl ValueError, lg))
       \<and> (ins \<noteq> [] \<and> outs \<noteq> [] \<longrightarrow>
            modelset_args name backend device data batch minbatch tag (PList ins) (PList outs)
              = Inr ([PStr ''AI.MODELSET'', name, PStr backend, device]
                  @ (case batch of None \<Rightarrow> [] | Some b \<Rightarrow> [PStr ''BATCHSIZE'', PInt b])
                  @ (case minbatch of None \<Rightarrow> [] | Some m \<Rightarrow> [PStr ''MINBATCHSIZE'', PInt m])
                  @ (case tag of None \<Rightarrow> [] | Some t \<Rightarrow> [PStr ''TAG'', PStr t])
                  @ PStr ''INPUTS'' # ins @ PStr ''OUTPUTS'' # outs @ [data])
          \<and> snd (modelset srv name backend device data batch minbatch tag
                    (PList ins) (PList outs) lg)
              = lg @ [[PStr ''AI.MODELSET'', name, PStr backend, device]
                  @ (case batch of None \<Rightarrow> [] | Some b \<Rightarrow> [PStr ''BATCHSIZE'', PInt b])
                  @ (case minbatch of None \<Rightarrow> [] | Some m \<Rightarrow> [PStr ''MINBATCHSIZE'', PInt m])
                  @ (case tag of None \<Rightarrow> [] | Some t \<Rightarrow> [PStr ''TAG'', PStr t])
                  @ PStr ''INPUTS'' # ins @ PStr ''OUTPUTS'' # outs @ [data]])"
  using assms by (auto simp: modelset_def modelset_args_tf snd_call_decode)

theorem modelset_tf_node_names_witness:
  "upper ''TF'' = ''TF''
   \<and> modelset (\<lambda>_. Inr (PBytes ''OK'')) (PStr ''m'') ''TF'' (PStr ''CPU'') (PBytes ''graph'')
       (Some 4) None (Some ''v1'') PNone (PList [PStr ''out'']) [] = (Inl ValueError, [])
   \<and> modelset_args (PStr ''m'') ''TF'' (PStr ''CPU'') (PBytes ''graph'') (Some 4) None
       (Some ''v1'') (PList [PStr ''a'', PStr ''b'']) (PList [PStr ''out''])
       = Inr [PStr ''AI.MODELSET'', PStr ''m'', PStr ''TF'', PStr ''CPU'',
              PStr ''BATCHSIZE'', PInt 4, PStr ''TAG'', PStr ''v1'',
              PStr ''INPUTS'', PStr ''a'', PStr ''b'', PStr ''OUTPUTS'', PStr ''out'',
              PBytes ''graph'']
   \<and> snd (modelset (\<lambda>_. Inr (PBytes ''OK'')) (PStr ''m'') ''TF'' (PStr ''CPU'')
            (PBytes ''graph'') (Some 4) None (Some ''v1'') (PList [PStr ''a'', PStr ''b''])
            (PList [PStr ''out'']) [])
       = [[PStr ''AI.MODELSET'', PStr ''m'', PStr ''TF'', PStr ''CPU'',
           PStr ''BATCHSIZE'', PInt 4, PStr ''TAG'', PStr ''v1'',
           PStr ''INPUTS'', PStr ''a'', PStr ''b'', PStr ''OUTPUTS'', PStr ''out'',
           PBytes ''graph'']]"
proof -
  have tf: "upper ''TF'' = ''TF''" by (simp add: upper_TF_iff)
  show ?thesis
    using tf
      modelset_tf_node_names [OF tf, of PNone "PList [PStr ''out'']"
        "\<lambda>_. Inr (PBytes ''OK'')" "PStr ''m''" "PStr ''CPU''" "PBytes ''graph''" "Some 4" None
        "Some ''v1''" "[]" "[PStr ''a'', PStr ''b'']" "[PStr ''out'']"]
    by simp
qed

text \<open>
  C10: when the backend is "TF" after upper-casing, an empty list of input or output
  node names is treated as a missing one: the call raises \<^verbatim>\<open>ValueError\<close>, the log of
  requests is unchanged, and the outcome is that of the same call with \<^verbatim>\<open>None\<close> in
  place of each empty list.
\<close>

theorem modelset_tf_empty_nodes:
  assumes "upper backend = ''TF''" and "inputs = PList [] \<or> outputs = PList []"
  shows "modelset srv name backend device data batch minbatch tag inputs outputs lg
           = (Inl ValueError, lg)
       \<and> modelset srv name backend device data batch minbatch tag inputs outputs lg
           = modelset srv name backend device data batch minbatch tag
               (if inputs = PList [] then PNone else inputs)
               (if outputs = PList [] then PNone else outputs) lg"
  using assms by (auto simp: modelset_def modelset_args_tf)

theorem modelset_tf_empty_nodes_witness:
  "upper ''tf'' = ''TF''
   \<and> modelset (\<lambda>_. Inr (PBytes ''OK'')) (PStr ''m'') ''tf'' (PStr ''CPU'') (PBytes ''graph'')
       None None None (PList [PStr ''a'']) (PList []) [] = (Inl ValueError, [])
   \<and> modelset (\<lambda>_. Inr (PBytes ''OK'')) (PStr ''m'') ''tf'' (PStr ''CPU'') (PBytes ''graph'')
       None None None (PList [PStr ''a'']) (PList []) []
     = modelset (\<lambda>_. Inr (PBytes ''OK'')) (PStr ''m'') ''tf'' (PStr ''CPU'') (PBytes ''graph'')
       None None None (PList [PStr ''a'']) PNone []"
proof -
  have tf: "upper ''tf'' = ''TF''" by (simp add: upper_TF_iff)
  show ?thesis
    using tf
      modelset_tf_empty_nodes [OF tf, of "PList [PStr ''a'']" "PList []"
        "\<lambda>_. Inr (PBytes ''OK'')" "PStr ''m''" "PStr ''CPU''" "PBytes ''graph''" None None None "[]"]
    by auto
qed

section \<open>tensorset: the three kinds of tensor argument\<close>

lemma tensorset_args_sequence:
  assumes "v = PList xs \<or> v = PTuple xs"
  shows "tensorset_args key (Obj v) shape dtype =
           Inr ([PStr ''AI.TENSORSET'', key, (case dtype of None \<Rightarrow> PNone | Some d \<Rightarrow> PStr d)]
                @ map PInt (case shape of None \<Rightarrow> [int (length xs)] | Some s \<Rightarrow> s)
                @ PStr ''VALUES'' # xs)"
  using assms by (auto simp: tensorset_args_def Let_def)

text \<open>
  C3: a tensor argument that is neither a numpy array nor a list or a tuple makes
  \<^verbatim>\<open>tensorset\<close> raise \<^verbatim>\<open>TypeError\<close>, whatever shape and dtype are passed, and the log
  of requests stays as it was: the server is not contacted.
\<close>

theorem tensorset_rejects_other:
  assumes "\<not> is_sequence v"
  shows "tensorset srv key (Obj v) shape dtype lg = (Inl TypeError, lg)"
  using assms by (cases v) (simp_all add: tensorset_def tensorset_args_def)

theorem tensorset_rejects_other_witness:
  "\<not> is_sequence (PInt 5)
   \<and> tensorset (\<lambda>_. Inr (PBytes ''OK'')) (PStr ''x'') (Obj (PInt 5)) (Some [1]) (Some ''FLOAT'') []
       = (Inl TypeError, [])"
  using tensorset_rejects_other [of "PInt 5" "\<lambda>_. Inr (PBytes ''OK'')" "PStr ''x''"
      "Some [1]" "Some ''FLOAT''" "[]"]
  by simp

text \<open>
  C4, as the claim states it, fails: the client does not compare the number of values
  with the shape. Three values with the shape (2, 2) give an argument list with the
  shape tokens 2, 2 and three values.
\<close>

theorem tensorset_shape_unchecked_counterexample:
  "tensorset_args (PStr ''x'') (Obj (PList [PInt 1, PInt 2, PInt 3])) (Some [2, 2])
       (Some ''FLOAT'')
     = Inr [PStr ''AI.TENSORSET'', PStr ''x'', PStr ''FLOAT'', PInt 2, PInt 2, PStr ''VALUES'',
            PInt 1, PInt 2, PInt 3]
   \<and> int (length [PInt 1, PInt 2, PInt 3]) \<noteq> prod_list [2, 2]"
  by (simp add: tensorset_args_def)

text \<open>
  C4, amended: for a list or a tuple with a dtype, the argument list is
  \<^verbatim>\<open>AI.TENSORSET\<close>, key, dtype, the shape tokens, the marker \<^verbatim>\<open>VALUES\<close> and then
  the elements of the sequence as they are, and that list is the request issued. The
  shape tokens are the supplied shape, or the length of the sequence when none is
  supplied; in that case the number of values is the product of the shape.
\<close>

theorem tensorset_sequence_args:
  assumes "v = PList xs \<or> v = PTuple xs"
  shows "tensorset_args key (Obj v) shape (Some dtype) =
           Inr ([PStr ''AI.TENSORSET'', key, PStr dtype]
                @ map PInt (case shape of None \<Rightarrow> [int (length xs)] | Some s \<Rightarrow> s)
                @ PStr ''VALUES'' # xs)
       \<and> snd (tensorset srv key (Obj v) shape (Some dtype) lg) =
           lg @ [[PStr ''AI.TENSORSET'', key, PStr dtype]
                @ map PInt (case shape of None \<Rightarrow> [int (length xs)] | Some s \<Rightarrow> s)
                @ PStr ''VALUES'' # xs]
       \<and> (shape = None \<longrightarrow>
            prod_list (case shape of None \<Rightarrow> [int (length xs)] | Some s \<Rightarrow> s)
              = int (length xs))"
  using assms
  by (auto simp: tensorset_def tensorset_args_sequence snd_call_decode)

text \<open>The witness is the example of the spec: key "x", [1,2,3,4], shape (2,2), "FLOAT".\<close>

theorem tensorset_sequence_args_witness:
  "tensorset_args (PStr ''x'') (Obj (PList [PInt 1, PInt 2, PInt 3, PInt 4])) (Some [2, 2])
       (Some ''FLOAT'') =
     Inr [PStr ''AI.TENSORSET'', PStr ''x'', PStr ''FLOAT'', PInt 2, PInt 2, PStr ''VALUES'',
          PInt 1, PInt 2, PInt 3, PInt 4]
   \<and> snd (tensorset (\<lambda>_. Inr (PBytes ''OK'')) (PStr ''x'')
            (Obj (PList [PInt 1, PInt 2, PInt 3, PInt 4])) (Some [2, 2]) (Some ''FLOAT'') []) =
       [[PStr ''AI.TENSORSET'', PStr ''x'', PStr ''FLOAT'', PInt 2, PInt 2, PStr ''VALUES'',
         PInt 1, PInt 2, PInt 3, PInt 4]]"
  using tensorset_sequence_args [of "PList [PInt 1, PInt 2, PInt 3, PInt 4]"
      "[PInt 1, PInt 2, PInt 3, PInt 4]" "PStr ''x''" "Some [2, 2]" "''FLOAT''"
      "\<lambda>_. Inr (PBytes ''OK'')" "[]"]
  by simp

text \<open>
  C5: for a numpy array the argument list is \<^verbatim>\<open>AI.TENSORSET\<close>, key, the tag of the
  array's own element type, the array's own dimensions, the marker \<^verbatim>\<open>BLOB\<close> and the
  array's bytes as one byte string. That list is the request \<^verbatim>\<open>tensorset\<close> issues,
  the one entry it adds to the log, and the outcome of the call is that of the transport
  call on it; the \<open>shape\<close> and \<open>dtype\<close> arguments of the call do not change the
  outcome.
\<close>

theorem tensorset_ndarray_args:
  "tensorset_args key (NdArray a) shape dtype =
     Inr ([PStr ''AI.TENSORSET'', key, PStr (dtype_tag (arr_dtype a))]
          @ map (\<lambda>n. PInt (int n)) (arr_shape a)
          @ [PStr ''BLOB'',
             PBytes (concat (map (le_bytes (itemsize (arr_dtype a))) (arr_data a)))])
   \<and> tensorset srv key (NdArray a) shape dtype lg =
       call_decode srv
         ([PStr ''AI.TENSORSET'', key, PStr (dtype_tag (arr_dtype a))]
          @ map (\<lambda>n. PInt (int n)) (arr_shape a)
          @ [PStr ''BLOB'',
             PBytes (concat (map (le_bytes (itemsize (arr_dtype a))) (arr_data a)))]) lg
   \<and> snd (tensorset srv key (NdArray a) shape dtype lg) =
       lg @ [[PStr ''AI.TENSORSET'', key, PStr (dtype_tag (arr_dtype a))]
          @ map (\<lambda>n. PInt (int n)) (arr_shape a)
          @ [PStr ''BLOB'',
             PBytes (concat (map (le_bytes (itemsize (arr_dtype a))) (arr_data a)))]]
   \<and> tensorset srv key (NdArray a) shape dtype lg = tensorset srv key (NdArray a) shape' dtype' lg"
  by (simp add: tensorset_def tensorset_args_def numpy2blob_def snd_call_decode)

theorem tensorset_ndarray_args_witness:
  "tensorset_args (PStr ''x'')
       (NdArray \<lparr>arr_dtype = Int32, arr_shape = [2, 1], arr_data = [1, 258]\<rparr>)
       (Some [7]) (Some ''DOUBLE'')
     = Inr [PStr ''AI.TENSORSET'', PStr ''x'', PStr ''INT32'', PInt 2, PInt 1, PStr ''BLOB'',
            PBytes (le_bytes 4 1 @ le_bytes 4 258)]
   \<and> tensorset (\<lambda>_. Inr (PBytes ''OK'')) (PStr ''x'')
         (NdArray \<lparr>arr_dtype = Int32, arr_shape = [2, 1], arr_data = [1, 258]\<rparr>)
         (Some [7]) (Some ''DOUBLE'') []
     = (Inr (PStr ''OK''),
        [[PStr ''AI.TENSORSET'', PStr ''x'', PStr ''INT32'', PInt 2, PInt 1, PStr ''BLOB'',
          PBytes (le_bytes 4 1 @ le_bytes 4 258)]])
   \<and> tensorset (\<lambda>_. Inr (PBytes ''OK'')) (PStr ''x'')
         (NdArray \<lparr>arr_dtype = Int32, arr_shape = [2, 1], arr_data = [1, 258]\<rparr>)
         None None []
     = (Inr (PStr ''OK''),
        [[PStr ''AI.TENSORSET'', PStr ''x'', PStr ''INT32'', PInt 2, PInt 1, PStr ''BLOB'',
          PBytes (le_bytes 4 1 @ le_bytes 4 258)]])"
  using tensorset_ndarray_args [where key = "PStr ''x''"
      and a = "\<lparr>arr_dtype = Int32, arr_shape = [2, 1], arr_data = [1, 258]\<rparr>"
      and shape = "Some [7]" and dtype = "Some ''DOUBLE''"
      and srv = "\<lambda>_. Inr (PBytes ''OK'')" and lg = "[]" and shape' = None and dtype' = None]
  by (auto simp: call_decode_ok)

text \<open>
  C9: for a list or a tuple without a dtype, \<^verbatim>\<open>tensorset\<close> raises nothing of its
  own: it builds the argument list with \<^verbatim>\<open>None\<close> in the place of the dtype and issues
  it, and its outcome is that of the transport call.
\<close>

theorem tensorset_sequence_no_dtype:
  assumes "v = PList xs \<or> v = PTuple xs"
  shows "tensorset srv key (Obj v) shape None lg =
           call_decode srv ([PStr ''AI.TENSORSET'', key, PNone]
                @ map PInt (case shape of None \<Rightarrow> [int (length xs)] | Some s \<Rightarrow> s)
                @ PStr ''VALUES'' # xs) lg
       \<and> snd (tensorset srv key (Obj v) shape None lg) =
           lg @ [[PStr ''AI.TENSORSET'', key, PNone]
                @ map PInt (case shape of None \<Rightarrow> [int (length xs)] | Some s \<Rightarrow> s)
                @ PStr ''VALUES'' # xs]"
  using assms
  by (auto simp: tensorset_def tensorset_args_sequence snd_call_decode)

theorem tensorset_sequence_no_dtype_witness:
  "tensorset (\<lambda>_. Inr (PBytes ''OK'')) (PStr ''x'') (Obj (PTuple [PInt 7, PInt 8])) None None []
     = (Inr (PStr ''OK''),
        [[PStr ''AI.TENSORSET'', PStr ''x'', PNone, PInt 2, PStr ''VALUES'', PInt 7, PInt 8]])"
  using tensorset_sequence_no_dtype [of "PTuple [PInt 7, PInt 8]" "[PInt 7, PInt 8]"
      "\<lambda>_. Inr (PBytes ''OK'')" "PStr ''x''" None "[]"]
  by (simp add: call_decode_ok)

section \<open>The tensor codec: encoding and decoding a native array\<close>

lemma length_le_bytes: "length (le_bytes n x) = n"
  by (induction n arbitrary: x) auto

lemma from_le_le_bytes: "x < 256 ^ n \<Longrightarrow> from_le (le_bytes n x) = x"
proof (induction n arbitrary: x)
  case 0
  then show ?case by simp
next
  case (Suc n)
  from Suc.prems have "x div 256 < 256 ^ n"
    by (simp add: less_mult_imp_div_less mult.commute)
  with Suc.IH have "from_le (le_bytes n (x div 256)) = x div 256" .
  then show ?case by simp
qed

lemma chunks_concat:
  assumes "0 < n" and "\<forall>ys\<in>set yss. length ys = n"
  shows "chunks n (concat yss) = yss"
  using assms(2)
proof (induction yss)
  case Nil
  then show ?case by simp
next
  case (Cons ys yss)
  then have "length ys = n" and ih: "chunks n (concat yss) = yss" by auto
  with \<open>0 < n\<close> have "ys \<noteq> []" by auto
  with \<open>0 < n\<close> \<open>length ys = n\<close> ih show ?case
    by (cases ys) auto
qed

lemma tag_dtype_tag: "tag_dtype (dtype_tag d) = Some d"
  by (cases d) (simp_all add: tag_dtype_def)

lemma those_dims_nat: "those_dims (map (\<lambda>n. PInt (int n)) s) = Some s"
  by (induction s) auto

lemma length_concat_le_bytes: "length (concat (map (le_bytes n) xs)) = length xs * n"
  by (induction xs) (auto simp: length_le_bytes)

lemma itemsize_pos: "0 < itemsize d"
  by (cases d) auto

lemma decode_elements:
  assumes "list_all (\<lambda>x. x < 256 ^ n) xs" and "0 < n"
  shows "map from_le (chunks n (concat (map (le_bytes n) xs))) = xs"
proof -
  have "chunks n (concat (map (le_bytes n) xs)) = map (le_bytes n) xs"
    using \<open>0 < n\<close> by (intro chunks_concat) (auto simp: length_le_bytes)
  moreover have "map from_le (map (le_bytes n) xs) = xs"
    using assms(1) by (induction xs) (auto simp: from_le_le_bytes)
  ultimately show ?thesis by simp
qed

lemma blob2numpy_numpy2blob:
  assumes "wf_ndarray a"
  shows "blob2numpy (PBytes (concat (map (le_bytes (itemsize (arr_dtype a))) (arr_data a))))
           (PList (map (\<lambda>n. PInt (int n)) (arr_shape a))) (PStr (dtype_tag (arr_dtype a)))
         = Inr a"
  using assms
  by (simp add: blob2numpy_def wf_ndarray_def those_dims_nat tag_dtype_tag
      length_concat_le_bytes decode_elements itemsize_pos)

subsection \<open>Replies with the keys the client reads\<close>

lemma decode_value_dims:
  "decode_value (PList (map (\<lambda>n. PInt (int n)) s)) = Inr (PList (map (\<lambda>n. PInt (int n)) s))"
proof -
  have "collect (map decode_elems (map (\<lambda>n. PInt (int n)) s)) = Inr (map (\<lambda>n. PInt (int n)) s)"
    by (induction s) auto
  then show ?thesis by simp
qed

lemma decode_value_scalar:
  "decode_value (PStr t) = Inr (PStr t)" "decode_value (PBytes b) = Inr (PBytes b)"
  by simp_all

lemma key_dtype: "decode_text (PBytes ''dtype'') = Inr ''dtype''" "lower ''dtype'' = ''dtype''"
  by (simp_all add: decode_text_def lower_def lower_char_def cont_def)

lemma key_shape: "decode_text (PBytes ''shape'') = Inr ''shape''" "lower ''shape'' = ''shape''"
  by (simp_all add: decode_text_def lower_def lower_char_def cont_def)

lemma key_blob: "decode_text (PBytes ''blob'') = Inr ''blob''" "lower ''blob'' = ''blob''"
  by (simp_all add: decode_text_def lower_def lower_char_def cont_def)

lemma key_values:
  "decode_text (PBytes ''values'') = Inr ''values''" "lower ''values'' = ''values''"
  by (simp_all add: decode_text_def lower_def lower_char_def cont_def)

lemma list2dict_blob_reply:
  "list2dict (PList [PBytes ''dtype'', PStr t,
                     PBytes ''shape'', PList (map (\<lambda>n. PInt (int n)) s),
                     PBytes ''blob'', PBytes b])
     = Inr [(''dtype'', PStr t), (''shape'', PList (map (\<lambda>n. PInt (int n)) s)),
            (''blob'', PBytes b)]"
  by (simp add: list2dict_def key_dtype key_shape key_blob decode_value_dims
      decode_value_scalar del: decode_value.simps)

text \<open>
  C1: for an array of any of the element types, with as many elements as its shape
  says and every element within its width, decoding the (dtype, shape, blob) triple
  that \<^verbatim>\<open>numpy2blob\<close> gives (the triple \<^verbatim>\<open>tensorset\<close> sends) returns the array
  itself, elements and shape; and \<^verbatim>\<open>tensorget\<close> on its \<open>as_numpy\<close> path, given a reply
  that carries the triple, returns that array.
\<close>

theorem codec_roundtrip:
  assumes "wf_ndarray a" and "numpy2blob a = (t, s, b)"
  shows "blob2numpy (PBytes b) (PList (map (\<lambda>n. PInt (int n)) s)) (PStr t) = Inr a
       \<and> tensorget_decode py_float py_int True False
           (PList [PBytes ''dtype'', PStr t,
                   PBytes ''shape'', PList (map (\<lambda>n. PInt (int n)) s),
                   PBytes ''blob'', PBytes b]) = Inr (Array a)"
proof -
  from assms(2) have t: "t = dtype_tag (arr_dtype a)" and s: "s = arr_shape a"
    and b: "b = concat (map (le_bytes (itemsize (arr_dtype a))) (arr_data a))"
    by (auto simp: numpy2blob_def)
  have rt: "blob2numpy (PBytes b) (PList (map (\<lambda>n. PInt (int n)) s)) (PStr t) = Inr a"
    unfolding t s b by (rule blob2numpy_numpy2blob [OF assms(1)])
  then show ?thesis
    by (simp add: tensorget_decode_def list2dict_blob_reply getitem_def)
qed

text \<open>The witness: two float32 elements, 1.5 and -2.0 by their IEEE patterns.\<close>

theorem codec_roundtrip_witness:
  "wf_ndarray \<lparr>arr_dtype = Float32, arr_shape = [2], arr_data = [1069547520, 3221225472]\<rparr>
   \<and> numpy2blob \<lparr>arr_dtype = Float32, arr_shape = [2], arr_data = [1069547520, 3221225472]\<rparr>
       = (''FLOAT'', [2], le_bytes 4 1069547520 @ le_bytes 4 3221225472)
   \<and> blob2numpy (PBytes (le_bytes 4 1069547520 @ le_bytes 4 3221225472)) (PList [PInt 2])
         (PStr ''FLOAT'')
       = Inr \<lparr>arr_dtype = Float32, arr_shape = [2], arr_data = [1069547520, 3221225472]\<rparr>
   \<and> tensorget_decode Inr Inr True False
         (PList [PBytes ''dtype'', PStr ''FLOAT'', PBytes ''shape'', PList [PInt 2],
                 PBytes ''blob'', PBytes (le_bytes 4 1069547520 @ le_bytes 4 3221225472)])
       = Inr (Array \<lparr>arr_dtype = Float32, arr_shape = [2],
                      arr_data = [1069547520, 3221225472]\<rparr>)"
proof -
  let ?a = "\<lparr>arr_dtype = Float32, arr_shape = [2], arr_data = [1069547520, 3221225472]\<rparr>"
  have wf: "wf_ndarray ?a"
    by (simp add: wf_ndarray_def)
  have nb: "numpy2blob ?a = (''FLOAT'', [2], le_bytes 4 1069547520 @ le_bytes 4 3221225472)"
    by (simp add: numpy2blob_def)
  show ?thesis
    using wf nb codec_roundtrip [OF wf nb, of Inr Inr] by simp
qed

section \<open>list2dict: folding a flat reply into a mapping\<close>

lemma length_flat_reply: "length (flat_reply kvs) = 2 * length kvs"
  by (induction kvs) (auto simp: flat_reply_def)

lemma flat_reply_Cons: "flat_reply ((k, v) # kvs) = PBytes k # v # flat_reply kvs"
  by (simp add: flat_reply_def)

lemma flat_reply_Nil: "flat_reply [] = []"
  by (simp add: flat_reply_def)

lemma update_fresh: "k \<notin> set (map fst al) \<Longrightarrow> AList.update k v al = al @ [(k, v)]"
  by (induction al) auto

lemma fold_pairs_flat:
  assumes "list_all (\<lambda>(k, v). utf8_ok (map of_char k)) kvs"
    and "list_all2 (\<lambda>(k, v) w. decode_value v = Inr w) kvs ws"
  shows "fold_pairs (flat_reply kvs) out =
           Inr (foldl (\<lambda>acc (k, w). AList.update k w acc) out
                  (zip (map (\<lambda>(k, v). lower k) kvs) ws))"
  using assms
proof (induction kvs arbitrary: ws out)
  case Nil
  then show ?case by (simp add: flat_reply_Nil)
next
  case (Cons kv kvs)
  obtain k v where kv: "kv = (k, v)" by (cases kv)
  from Cons.prems(2) obtain w ws' where ws: "ws = w # ws'"
    and w: "decode_value v = Inr w"
    and rest: "list_all2 (\<lambda>(k, v) w. decode_value v = Inr w) kvs ws'"
    by (auto simp: kv list_all2_Cons1)
  from Cons.prems(1) have k: "utf8_ok (map of_char k)"
    and ks: "list_all (\<lambda>(k, v). utf8_ok (map of_char k)) kvs"
    by (auto simp: kv)
  show ?case
    by (simp add: kv ws flat_reply_Cons decode_text_def k w Cons.IH [OF ks rest])
qed

lemma keys_foldl_update:
  "map fst (foldl (\<lambda>acc (k, w). AList.update k w acc) out ps) =
     map fst out @ first_occurrences (filter (\<lambda>k. k \<notin> set (map fst out)) (map fst ps))"
proof (induction ps arbitrary: out)
  case Nil
  then show ?case by simp
next
  case (Cons p ps)
  obtain k w where p: "p = (k, w)" by (cases p)
  show ?case
  proof (cases "k \<in> set (map fst out)")
    case True
    then show ?thesis
      by (simp add: p Cons.IH update_keys)
  next
    case False
    have "removeAll k (filter (\<lambda>k. k \<notin> set (map fst out)) (map fst ps)) =
          filter (\<lambda>k'. k' \<notin> set (map fst out @ [k])) (map fst ps)"
      using False by (induction ps) auto
    with False show ?thesis
      by (simp add: p Cons.IH update_keys)
  qed
qed

lemma map_of_foldl_update:
  "map_of (foldl (\<lambda>acc (k, w). AList.update k w acc) out ps) = map_of (rev ps @ out)"
proof (induction ps arbitrary: out)
  case Nil
  then show ?case by simp
next
  case (Cons p ps)
  obtain k w where p: "p = (k, w)" by (cases p)
  show ?case
    by (simp add: p Cons.IH update_conv' map_add_def fun_eq_iff split: option.splits)
qed

lemma foldl_update_distinct:
  "distinct (map fst out @ map fst ps) \<Longrightarrow>
     foldl (\<lambda>acc (k, w). AList.update k w acc) out ps = out @ ps"
proof (induction ps arbitrary: out)
  case Nil
  then show ?case by simp
next
  case (Cons p ps)
  obtain k w where p: "p = (k, w)" by (cases p)
  from Cons.prems have fresh: "k \<notin> set (map fst out)"
    and d: "distinct (map fst (out @ [(k, w)]) @ map fst ps)"
    by (auto simp: p)
  show ?case
    using Cons.IH [OF d] by (simp add: p update_fresh [OF fresh])
qed

lemma length_first_occurrences: "length (first_occurrences xs) \<le> length xs"
proof (induction xs rule: first_occurrences.induct)
  case 1
  then show ?case by simp
next
  case (2 x xs)
  have "length (first_occurrences (removeAll x xs)) \<le> length (removeAll x xs)"
    by (rule 2)
  also have "\<dots> \<le> length xs" by simp
  finally show ?case by simp
qed

lemma first_occurrences_distinct: "distinct xs \<Longrightarrow> first_occurrences xs = xs"
  by (induction xs) auto

lemma set_first_occurrences: "set (first_occurrences xs) = set xs"
  by (induction xs rule: first_occurrences.induct) auto

lemma distinct_first_occurrences: "distinct (first_occurrences xs)"
  by (induction xs rule: first_occurrences.induct) (auto simp: set_first_occurrences)


text \<open>
  C6, amended: a flat reply of N key/value pairs whose keys are byte strings of valid
  UTF-8 (and whose values decode) has length 2N and folds into a mapping with one entry
  for each distinct normalized key, in the order in which the keys first occur, so at
  most N entries; a key that occurs again keeps its place and takes the later value.
  When the N normalized keys are pairwise distinct the mapping has exactly N entries:
  entry i is the lower-cased text of element 2i with the decoded element 2i+1.
\<close>

theorem list2dict_entries:
  assumes "list_all (\<lambda>(k, v). utf8_ok (map of_char k)) kvs"
    and "list_all2 (\<lambda>(k, v) w. decode_value v = Inr w) kvs ws"
  shows "length (flat_reply kvs) = 2 * length kvs
       \<and> (\<exists>m. list2dict (PList (flat_reply kvs)) = Inr m
           \<and> map fst m = first_occurrences (map (\<lambda>(k, v). lower k) kvs)
           \<and> map_of m = map_of (rev (zip (map (\<lambda>(k, v). lower k) kvs) ws))
           \<and> length m \<le> length kvs
           \<and> (distinct (map (\<lambda>(k, v). lower k) kvs) \<longrightarrow>
                 m = zip (map (\<lambda>(k, v). lower k) kvs) ws \<and> length m = length kvs))"
proof -
  let ?ks = "map (\<lambda>(k, v). lower k) kvs"
  let ?m = "foldl (\<lambda>acc (k, w). AList.update k w acc) [] (zip ?ks ws)"
  from assms(2) have len: "length ws = length kvs"
    by (simp add: list_all2_lengthD)
  then have keys: "map fst (zip ?ks ws) = ?ks" by simp
  have m: "list2dict (PList (flat_reply kvs)) = Inr ?m"
    by (simp add: list2dict_def fold_pairs_flat [OF assms])
  have order: "map fst ?m = first_occurrences ?ks"
    by (simp add: keys_foldl_update keys)
  have look: "map_of ?m = map_of (rev (zip ?ks ws))"
    by (simp add: map_of_foldl_update)
  have "length ?m = length (map fst ?m)" by simp
  also have "\<dots> \<le> length ?ks"
    unfolding order by (rule length_first_occurrences)
  finally have bound: "length ?m \<le> length kvs" by simp
  have exact: "?m = zip ?ks ws \<and> length ?m = length kvs" if "distinct ?ks"
  proof -
    from that have "distinct (map fst ([] :: pydict) @ map fst (zip ?ks ws))"
      by (simp add: keys)
    then have "?m = [] @ zip ?ks ws" by (rule foldl_update_distinct)
    then show ?thesis by (simp add: len)
  qed
  from m order look bound exact length_flat_reply [of kvs] show ?thesis by blast
qed


text \<open>
  Every reply of even length whose even-indexed elements are byte strings is such a
  flat reply.
\<close>

lemma flat_reply_cover:
  assumes "length xs = 2 * n" and "\<forall>i<n. \<exists>k. xs ! (2 * i) = PBytes k"
  shows "\<exists>kvs. xs = flat_reply kvs \<and> length kvs = n"
  using assms
proof (induction n arbitrary: xs)
  case 0
  then show ?case by (simp add: flat_reply_Nil)
next
  case (Suc n)
  from Suc.prems(1) obtain x v rest where xs: "xs = x # v # rest" and len: "length rest = 2 * n"
    by (cases xs; cases "tl xs") auto
  from Suc.prems(2) [rule_format, of 0] obtain k where x: "x = PBytes k"
    by (auto simp: xs)
  have "\<forall>i<n. \<exists>k. rest ! (2 * i) = PBytes k"
  proof (intro allI impI)
    fix i assume "i < n"
    with Suc.prems(2) [rule_format, of "Suc i"] show "\<exists>k. rest ! (2 * i) = PBytes k"
      by (simp add: xs)
  qed
  with Suc.IH [OF len] obtain kvs where "rest = flat_reply kvs" and "length kvs = n" by blast
  then have "xs = flat_reply ((k, v) # kvs) \<and> length ((k, v) # kvs) = Suc n"
    by (simp add: xs x flat_reply_Cons)
  then show ?case by blast
qed

text \<open>
  C6, as the claim states it, fails: a mapping holds a key once. The reply below has
  length 4, its two keys have the same normal form, and the mapping has one entry.
\<close>

theorem list2dict_duplicate_key_counterexample:
  "length [PBytes ''a'', PInt 1, PBytes ''A'', PInt 2] = 2 * 2
   \<and> list2dict (PList [PBytes ''a'', PInt 1, PBytes ''A'', PInt 2]) = Inr [(''a'', PInt 2)]"
  by code_simp

lemma lower_SHAPE: "lower ''SHAPE'' = ''shape''"
  by code_simp

theorem list2dict_entries_witness:
  "list2dict (PList [PBytes ''dtype'', PStr ''FLOAT'', PBytes ''SHAPE'', PList [PInt 2, PInt 2]])
     = Inr [(''dtype'', PStr ''FLOAT''), (''shape'', PList [PInt 2, PInt 2])]"
proof -
  let ?kvs = "[(''dtype'', PStr ''FLOAT''), (''SHAPE'', PList [PInt 2, PInt 2])]"
  let ?ws = "[PStr ''FLOAT'', PList [PInt 2, PInt 2]]"
  have keys: "list_all (\<lambda>(k, v). utf8_ok (map of_char k)) ?kvs"
    by (simp add: cont_def)
  have vals: "list_all2 (\<lambda>(k, v) w. decode_value v = Inr w) ?kvs ?ws"
    by simp
  have d: "distinct (map (\<lambda>(k, v). lower k) ?kvs)"
    by (simp add: lower_SHAPE key_dtype)
  from list2dict_entries [OF keys vals] d show ?thesis
    by (auto simp: flat_reply_def lower_SHAPE key_dtype)
qed

section \<open>tensorget: metadata, values and their coercion\<close>

lemma collect_map:
  "list_all2 (\<lambda>v w. f v = Inr w) vs ws \<Longrightarrow> collect (map f vs) = Inr ws"
  by (induction vs ws rule: list_all2_induct) auto

text \<open>
  C7: on the path with \<open>as_numpy\<close> and \<open>meta_only\<close> both false, \<^verbatim>\<open>tensorget\<close>
  requests \<^verbatim>\<open>META\<close> and \<^verbatim>\<open>VALUES\<close> and returns the decoded mapping with its value
  list converted element by element: by \<^verbatim>\<open>float\<close> when the mapping's dtype is
  \<^verbatim>\<open>'FLOAT'\<close> or \<^verbatim>\<open>'DOUBLE'\<close>, by \<^verbatim>\<open>int\<close> for every other dtype. (When a
  conversion raises, the call raises.)
\<close>

theorem tensorget_values_coercion:
  assumes "srv [PStr ''AI.TENSORGET'', key, PStr ''META'', PStr ''VALUES''] = Inr reply"
    and "list2dict reply = Inr res"
    and "map_of res ''dtype'' = Some d"
    and "map_of res ''values'' = Some (PList vs)"
    and "list_all2
           (\<lambda>v w. (if d = PStr ''FLOAT'' \<or> d = PStr ''DOUBLE'' then py_float else py_int) v = Inr w)
           vs ws"
  shows "tensorget srv py_float py_int key False False lg =
           (Inr (Mapping (AList.update ''values'' (PList ws) res)),
            lg @ [[PStr ''AI.TENSORGET'', key, PStr ''META'', PStr ''VALUES'']])"
  using assms(1-4) collect_map [OF assms(5)]
  by (simp add: tensorget_def tensorget_args_def execute_command_def tensorget_decode_def
      getitem_def un_bytize_def Let_def)

theorem tensorget_values_coercion_witness:
  "tensorget
     (\<lambda>_. Inr (PList [PBytes ''dtype'', PStr ''FLOAT'', PBytes ''shape'', PList [PInt 2],
                       PBytes ''values'', PList [PBytes ''1.5'', PBytes ''-2'']]))
     (\<lambda>v. if v = PStr ''1.5'' then Inr (PFloat 4609434218613702656)
          else if v = PStr ''-2'' then Inr (PFloat 13835058055282163712)
          else Inl ValueError)
     (\<lambda>v. Inl ValueError) (PStr ''x'') False False []
     = (Inr (Mapping [(''dtype'', PStr ''FLOAT''), (''shape'', PList [PInt 2]),
                      (''values'', PList [PFloat 4609434218613702656,
                                          PFloat 13835058055282163712])]),
        [[PStr ''AI.TENSORGET'', PStr ''x'', PStr ''META'', PStr ''VALUES'']])
   \<and> tensorget
     (\<lambda>_. Inr (PList [PBytes ''dtype'', PStr ''INT32'', PBytes ''shape'', PList [PInt 2],
                       PBytes ''values'', PList [PInt 7, PInt 8]]))
     (\<lambda>v. Inl ValueError)
     (\<lambda>v. case v of PInt i \<Rightarrow> Inr (PInt i) | _ \<Rightarrow> Inl ValueError) (PStr ''x'') False False []
     = (Inr (Mapping [(''dtype'', PStr ''INT32''), (''shape'', PList [PInt 2]),
                      (''values'', PList [PInt 7, PInt 8])]),
        [[PStr ''AI.TENSORGET'', PStr ''x'', PStr ''META'', PStr ''VALUES'']])"
proof -
  let ?rf = "PList [PBytes ''dtype'', PStr ''FLOAT'', PBytes ''shape'', PList [PInt 2],
                    PBytes ''values'', PList [PBytes ''1.5'', PBytes ''-2'']]"
  let ?ri = "PList [PBytes ''dtype'', PStr ''INT32'', PBytes ''shape'', PList [PInt 2],
                    PBytes ''values'', PList [PInt 7, PInt 8]]"
  let ?pf = "\<lambda>v. if v = PStr ''1.5'' then Inr (PFloat 4609434218613702656)
          else if v = PStr ''-2'' then Inr (PFloat 13835058055282163712)
          else Inl ValueError"
  let ?pi = "\<lambda>v. case v of PInt i \<Rightarrow> Inr (PInt i) | _ \<Rightarrow> Inl ValueError"
  have df: "list2dict ?rf = Inr [(''dtype'', PStr ''FLOAT''), (''shape'', PList [PInt 2]),
                                 (''values'', PList [PStr ''1.5'', PStr ''-2''])]"
    by (simp add: list2dict_def key_dtype key_shape key_values decode_def decode_text_def)
  have di: "list2dict ?ri = Inr [(''dtype'', PStr ''INT32''), (''shape'', PList [PInt 2]),
                                 (''values'', PList [PInt 7, PInt 8])]"
    by (simp add: list2dict_def key_dtype key_shape key_values)
  have f: "tensorget (\<lambda>_. Inr ?rf) ?pf (\<lambda>v. Inl ValueError) (PStr ''x'') False False []
     = (Inr (Mapping (AList.update ''values''
                        (PList [PFloat 4609434218613702656, PFloat 13835058055282163712])
                        [(''dtype'', PStr ''FLOAT''), (''shape'', PList [PInt 2]),
                         (''values'', PList [PStr ''1.5'', PStr ''-2''])])),
        [] @ [[PStr ''AI.TENSORGET'', PStr ''x'', PStr ''META'', PStr ''VALUES'']])"
    by (rule tensorget_values_coercion [where reply = ?rf and d = "PStr ''FLOAT''"
          and vs = "[PStr ''1.5'', PStr ''-2'']", OF refl df]) simp_all
  have i: "tensorget (\<lambda>_. Inr ?ri) (\<lambda>v. Inl ValueError) ?pi (PStr ''x'') False False []
     = (Inr (Mapping (AList.update ''values'' (PList [PInt 7, PInt 8])
                        [(''dtype'', PStr ''INT32''), (''shape'', PList [PInt 2]),
                         (''values'', PList [PInt 7, PInt 8])])),
        [] @ [[PStr ''AI.TENSORGET'', PStr ''x'', PStr ''META'', PStr ''VALUES'']])"
    by (rule tensorget_values_coercion [where reply = ?ri and d = "PStr ''INT32''"
          and vs = "[PInt 7, PInt 8]", OF refl di]) simp_all
  from f i show ?thesis by simp
qed

lemma list2dict_meta_reply:
  "list2dict (PList [PBytes ''dtype'', PStr t, PBytes ''shape'', PList (map (\<lambda>n. PInt (int n)) s)])
     = Inr [(''dtype'', PStr t), (''shape'', PList (map (\<lambda>n. PInt (int n)) s))]"
  by (simp add: list2dict_def key_dtype key_shape decode_value_dims
      decode_value_scalar del: decode_value.simps)

text \<open>
  C8: with \<open>meta_only\<close> set, whatever \<open>as_numpy\<close> is, the one request is
  \<^verbatim>\<open>AI.TENSORGET\<close>, key, \<^verbatim>\<open>META\<close>, with neither \<^verbatim>\<open>BLOB\<close> nor \<^verbatim>\<open>VALUES\<close>, and
  the result is the decoded reply as it is. For the reply to a metadata request, the
  dtype and the shape, the mapping holds the dtype and the shape and has no
  \<^verbatim>\<open>'values'\<close> and no \<^verbatim>\<open>'blob'\<close> key.
\<close>

theorem tensorget_meta_only:
  "tensorget_args key as_numpy True = [PStr ''AI.TENSORGET'', key, PStr ''META'']
   \<and> snd (tensorget srv py_float py_int key as_numpy True lg)
       = lg @ [[PStr ''AI.TENSORGET'', key, PStr ''META'']]
   \<and> tensorget_decode py_float py_int as_numpy True reply
       = (case list2dict reply of Inl e \<Rightarrow> Inl e | Inr res \<Rightarrow> Inr (Mapping res))
   \<and> (srv [PStr ''AI.TENSORGET'', key, PStr ''META'']
         = Inr (PList [PBytes ''dtype'', PStr t,
                       PBytes ''shape'', PList (map (\<lambda>n. PInt (int n)) s)]) \<longrightarrow>
        fst (tensorget srv py_float py_int key as_numpy True lg)
          = Inr (Mapping [(''dtype'', PStr t), (''shape'', PList (map (\<lambda>n. PInt (int n)) s))])
        \<and> map_of [(''dtype'', PStr t), (''shape'', PList (map (\<lambda>n. PInt (int n)) s))] ''values''
            = None
        \<and> map_of [(''dtype'', PStr t), (''shape'', PList (map (\<lambda>n. PInt (int n)) s))] ''blob''
            = None)"
  by (auto simp: tensorget_def tensorget_args_def execute_command_def tensorget_decode_def
      list2dict_meta_reply split: sum.splits)


theorem tensorget_meta_only_witness:
  "tensorget
     (\<lambda>_. Inr (PList [PBytes ''dtype'', PStr ''FLOAT'', PBytes ''shape'', PList [PInt 2, PInt 2]]))
     Inr Inr (PStr ''x'') True True []
     = (Inr (Mapping [(''dtype'', PStr ''FLOAT''), (''shape'', PList [PInt 2, PInt 2])]),
        [[PStr ''AI.TENSORGET'', PStr ''x'', PStr ''META'']])"
  using tensorget_meta_only [where key = "PStr ''x''" and as_numpy = True and lg = "[]"
      and srv = "\<lambda>_. Inr (PList [PBytes ''dtype'', PStr ''FLOAT'',
                                  PBytes ''shape'', PList [PInt 2, PInt 2]])"
      and py_float = Inr and py_int = Inr and t = "''FLOAT''" and s = "[2, 2]"]
  by (simp add: prod_eq_iff)

end
